theory Spec2Isabelle
  imports Complex_Main
begin

unbundle bit_operations_syntax

section \<open>Varint codec\<close>

text \<open>
  \<^verbatim>\<open>_decode_varint_array(data, expected_length)\<close> of \<^verbatim>\<open>minecraft_to_lego_converter.py\<close>.
  The byte list holds Python integers (signed or unsigned bytes); a negative entry is
  read as \<open>entry + 256\<close>. The inner \<^verbatim>\<open>while True\<close> loop is \<open>read_varint\<close>: it returns
  the value assembled so far together with the advanced index, both when it meets a byte
  without continuation bit and when the input runs out (\<^verbatim>\<open>if i >= len(data): break\<close>).
  The statement after the inner loop, \<^verbatim>\<open>result.append(value)\<close>, is reached on either exit.
\<close>

definition unsigned_byte :: "int \<Rightarrow> int" where
  "unsigned_byte b = (if b \<ge> 0 then b else b + 256)"

function read_varint :: "int list \<Rightarrow> nat \<Rightarrow> int \<Rightarrow> nat \<Rightarrow> int \<times> nat" where
  "read_varint data i val shift =
     (if i \<ge> length data then (val, i)
      else (let byte = unsigned_byte (data ! i);
                val' = val OR push_bit shift (byte AND 0x7F)
            in if byte AND 0x80 = 0 then (val', i + 1)
               else read_varint data (i + 1) val' (shift + 7)))"
  by pat_completeness auto
termination
  by (relation "measure (\<lambda>(data, i, val, shift). length data - i)") auto

declare read_varint.simps [simp del]

lemma read_varint_advances:
  "i < length data \<Longrightarrow> i < snd (read_varint data i val shift)"
proof (induction data i val shift rule: read_varint.induct)
  case (1 data i val shift)
  show ?case
  proof (cases "unsigned_byte (data ! i) AND 0x80 = 0")
    case True
    with "1.prems" show ?thesis
      by (subst read_varint.simps) (simp add: Let_def)
  next
    case False
    show ?thesis
    proof (cases "i + 1 < length data")
      case True
      with False "1.prems" "1.IH" [OF _ refl refl] have "i + 1 < snd (read_varint data (i + 1)
          (val OR push_bit shift (unsigned_byte (data ! i) AND 0x7F)) (shift + 7))"
        by simp
      with False "1.prems" show ?thesis
        by (subst read_varint.simps) (simp add: Let_def)
    next
      case past: False
      then have "read_varint data (i + 1)
          (val OR push_bit shift (unsigned_byte (data ! i) AND 0x7F)) (shift + 7)
        = (val OR push_bit shift (unsigned_byte (data ! i) AND 0x7F), i + 1)"
        by (subst read_varint.simps) simp
      with False "1.prems" show ?thesis
        by (subst read_varint.simps) (simp add: Let_def)
    qed
  qed
qed

lemma read_varint_bounded:
  "i \<le> length data \<Longrightarrow> snd (read_varint data i val shift) \<le> length data"
proof (induction data i val shift rule: read_varint.induct)
  case (1 data i val shift)
  show ?case
  proof (cases "i \<ge> length data")
    case True
    with "1.prems" show ?thesis
      by (subst read_varint.simps) simp
  next
    case inside: False
    show ?thesis
    proof (cases "unsigned_byte (data ! i) AND 0x80 = 0")
      case True
      with inside show ?thesis
        by (subst read_varint.simps) (simp add: Let_def)
    next
      case False
      with inside "1.IH" [OF _ refl refl] have "snd (read_varint data (i + 1)
          (val OR push_bit shift (unsigned_byte (data ! i) AND 0x7F)) (shift + 7)) \<le> length data"
        by simp
      with False inside show ?thesis
        by (subst read_varint.simps) (simp add: Let_def)
    qed
  qed
qed

function decode_loop :: "int list \<Rightarrow> int \<Rightarrow> nat \<Rightarrow> int list \<Rightarrow> int list" where
  "decode_loop data expected_length i result =
     (if i < length data \<and> int (length result) < expected_length
      then (case read_varint data i 0 0 of
              (val, i') \<Rightarrow> decode_loop data expected_length i' (result @ [val]))
      else result)"
  by pat_completeness auto
termination
proof (relation "measure (\<lambda>(data, expected_length, i, result). length data - i)", goal_cases)
  case 1
  show ?case by simp
next
  case (2 data expected_length i result val i')
  then have "i < length data" and eq: "read_varint data i 0 0 = (val, i')"
    by simp_all
  from read_varint_advances [OF this(1), of 0 0] eq have "i < i'"
    by simp
  with \<open>i < length data\<close> show ?case by simp
qed

declare decode_loop.simps [simp del]

definition decode_varint_array :: "int list \<Rightarrow> int \<Rightarrow> int list" where
  "decode_varint_array data expected_length = decode_loop data expected_length 0 []"

text \<open>
  What one group of bytes contributes, in the words of the format: a group runs up to and
  including the first byte whose top bit is clear; an input that ends inside a group
  leaves a last group with no such byte.
\<close>

definition is_last_byte :: "int \<Rightarrow> bool" where
  "is_last_byte b = (unsigned_byte b AND 0x80 = 0)"

fun first_group :: "int list \<Rightarrow> int list" where
  "first_group [] = []"
| "first_group (b # bs) = (if is_last_byte b then [b] else b # first_group bs)"

fun group_value :: "int \<Rightarrow> nat \<Rightarrow> int list \<Rightarrow> int" where
  "group_value val shift [] = val"
| "group_value val shift (b # bs) =
     group_value (val OR push_bit shift (unsigned_byte b AND 0x7F)) (shift + 7) bs"

fun varint_groups :: "int list \<Rightarrow> int list list" where
  "varint_groups [] = []"
| "varint_groups (b # bs) =
     (if is_last_byte b then [b] # varint_groups bs
      else (case varint_groups bs of [] \<Rightarrow> [[b]] | g # gs \<Rightarrow> (b # g) # gs))"

definition complete_stream :: "int list \<Rightarrow> bool" where
  "complete_stream bs = (bs = [] \<or> is_last_byte (last bs))"


section \<open>Strings\<close>

text \<open>
  The Python string operations the converter uses, on \<open>string\<close> (block names are ASCII).
  \<open>str_remove pat s\<close> is \<^verbatim>\<open>s.replace(pat, "")\<close>: every non-overlapping occurrence of
  \<open>pat\<close>, found from the left, is deleted. \<open>str_contains pat s\<close> is \<^verbatim>\<open>pat in s\<close>.
  \<open>str_split c s\<close> is \<^verbatim>\<open>s.split(c)\<close> for a one-character separator, and
  \<open>str_split1 c s\<close> is \<^verbatim>\<open>s.split(c, 1)\<close>.
\<close>

fun startswith :: "string \<Rightarrow> string \<Rightarrow> bool" where
  "startswith [] s = True"
| "startswith (p # ps) [] = False"
| "startswith (p # ps) (c # cs) = (p = c \<and> startswith ps cs)"

function str_remove :: "string \<Rightarrow> string \<Rightarrow> string" where
  "str_remove pat [] = []"
| "str_remove pat (c # cs) =
     (if pat \<noteq> [] \<and> startswith pat (c # cs)
      then str_remove pat (drop (length pat) (c # cs))
      else c # str_remove pat cs)"
  by pat_completeness auto
termination
  by (relation "measure (\<lambda>(pat, s). length s)") auto

fun str_contains :: "string \<Rightarrow> string \<Rightarrow> bool" where
  "str_contains pat [] = (pat = [])"
| "str_contains pat (c # cs) = (startswith pat (c # cs) \<or> str_contains pat cs)"

fun str_split :: "char \<Rightarrow> string \<Rightarrow> string list" where
  "str_split sep [] = [[]]"
| "str_split sep (c # cs) =
     (if c = sep then [] # str_split sep cs
      else (case str_split sep cs of [] \<Rightarrow> [[c]] | w # ws \<Rightarrow> (c # w) # ws))"

definition str_split1 :: "char \<Rightarrow> string \<Rightarrow> string list" where
  "str_split1 sep s =
     (if sep \<in> set s then [takeWhile (\<lambda>c. c \<noteq> sep) s, tl (dropWhile (\<lambda>c. c \<noteq> sep) s)]
      else [s])"

definition rstrip_char :: "char \<Rightarrow> string \<Rightarrow> string" where
  "rstrip_char c s = rev (dropWhile (\<lambda>d. d = c) (rev s))"

text \<open>
  A dictionary literal, in source order: \<open>dict_lookup\<close> runs through the entries and keeps
  the value of the last one with the key, as the literal does when a key is repeated.
\<close>

fun dict_lookup :: "('k \<times> 'v) list \<Rightarrow> 'k \<Rightarrow> 'v option \<Rightarrow> 'v option" where
  "dict_lookup [] k found = found"
| "dict_lookup ((k', v) # rest) k found = dict_lookup rest k (if k' = k then Some v else found)"

definition dict_get :: "('k \<times> 'v) list \<Rightarrow> 'k \<Rightarrow> 'v option" where
  "dict_get d k = dict_lookup d k None"

definition dict_get_default :: "('k \<times> 'v) list \<Rightarrow> 'k \<Rightarrow> 'v \<Rightarrow> 'v" where
  "dict_get_default d k dflt = (case dict_get d k of Some v \<Rightarrow> v | None \<Rightarrow> dflt)"

section \<open>The converter's tables\<close>

text \<open>The tables set up by \<^verbatim>\<open>MinecraftToLegoConverter.__init__\<close>, entry by entry.\<close>

definition default_brick :: string where
  "default_brick = ''3005''"

definition brick_sizes :: "((nat \<times> nat) \<times> string) list" where
  "brick_sizes = [
   ((1, 8), ''3008''), ((1, 6), ''3009''), ((1, 4), ''3010''), ((1, 3), ''3622''),
   ((1, 2), ''3004''), ((1, 1), ''3005''), ((2, 8), ''3007''), ((2, 6), ''2456''),
   ((2, 4), ''3001''), ((2, 3), ''3002''), ((2, 2), ''3003'')]"

definition skip_blocks :: "string list" where
  "skip_blocks = [
   ''torch'', ''wall_torch'', ''soul_torch'', ''soul_wall_torch'', ''redstone_torch'',
   ''redstone_wall_torch'', ''lantern'', ''soul_lantern'', ''candle'', ''candle_cake'',
   ''white_candle'', ''orange_candle'', ''magenta_candle'', ''light_blue_candle'',
   ''yellow_candle'', ''lime_candle'', ''pink_candle'', ''gray_candle'', ''light_gray_candle'',
   ''cyan_candle'', ''purple_candle'', ''blue_candle'', ''brown_candle'', ''green_candle'',
   ''red_candle'', ''black_candle'', ''oak_sign'', ''spruce_sign'', ''birch_sign'',
   ''jungle_sign'', ''acacia_sign'', ''dark_oak_sign'', ''mangrove_sign'', ''cherry_sign'',
   ''bamboo_sign'', ''crimson_sign'', ''warped_sign'', ''oak_wall_sign'', ''spruce_wall_sign'',
   ''birch_wall_sign'', ''jungle_wall_sign'', ''acacia_wall_sign'', ''dark_oak_wall_sign'',
   ''mangrove_wall_sign'', ''cherry_wall_sign'', ''bamboo_wall_sign'', ''crimson_wall_sign'',
   ''warped_wall_sign'', ''oak_hanging_sign'', ''spruce_hanging_sign'', ''birch_hanging_sign'',
   ''jungle_hanging_sign'', ''acacia_hanging_sign'', ''dark_oak_hanging_sign'',
   ''mangrove_hanging_sign'', ''cherry_hanging_sign'', ''bamboo_hanging_sign'',
   ''crimson_hanging_sign'', ''warped_hanging_sign'', ''stone_button'', ''oak_button'',
   ''spruce_button'', ''birch_button'', ''jungle_button'', ''acacia_button'', ''dark_oak_button'',
   ''mangrove_button'', ''cherry_button'', ''bamboo_button'', ''crimson_button'',
   ''warped_button'', ''polished_blackstone_button'', ''stone_pressure_plate'',
   ''oak_pressure_plate'', ''spruce_pressure_plate'', ''birch_pressure_plate'',
   ''jungle_pressure_plate'', ''acacia_pressure_plate'', ''dark_oak_pressure_plate'',
   ''mangrove_pressure_plate'', ''cherry_pressure_plate'', ''bamboo_pressure_plate'',
   ''crimson_pressure_plate'', ''warped_pressure_plate'', ''light_weighted_pressure_plate'',
   ''heavy_weighted_pressure_plate'', ''polished_blackstone_pressure_plate'', ''redstone_wire'',
   ''repeater'', ''comparator'', ''lever'', ''tripwire'', ''tripwire_hook'', ''rail'',
   ''powered_rail'', ''detector_rail'', ''activator_rail'', ''oak_door'', ''spruce_door'',
   ''birch_door'', ''jungle_door'', ''acacia_door'', ''dark_oak_door'', ''mangrove_door'',
   ''cherry_door'', ''bamboo_door'', ''crimson_door'', ''warped_door'', ''iron_door'',
   ''oak_trapdoor'', ''spruce_trapdoor'', ''birch_trapdoor'', ''jungle_trapdoor'',
   ''acacia_trapdoor'', ''dark_oak_trapdoor'', ''mangrove_trapdoor'', ''cherry_trapdoor'',
   ''bamboo_trapdoor'', ''crimson_trapdoor'', ''warped_trapdoor'', ''iron_trapdoor'',
   ''dandelion'', ''poppy'', ''blue_orchid'', ''allium'', ''azure_bluet'', ''red_tulip'',
   ''orange_tulip'', ''white_tulip'', ''pink_tulip'', ''oxeye_daisy'', ''cornflower'',
   ''lily_of_the_valley'', ''wither_rose'', ''torchflower'', ''pitcher_plant'', ''sunflower'',
   ''lilac'', ''rose_bush'', ''peony'', ''grass'', ''tall_grass'', ''fern'', ''large_fern'',
   ''dead_bush'', ''seagrass'', ''tall_seagrass'', ''kelp'', ''kelp_plant'', ''sweet_berry_bush'',
   ''cave_vines'', ''cave_vines_plant'', ''hanging_roots'', ''spore_blossom'', ''glow_lichen'',
   ''sculk_vein'', ''oak_sapling'', ''spruce_sapling'', ''birch_sapling'', ''jungle_sapling'',
   ''acacia_sapling'', ''dark_oak_sapling'', ''mangrove_propagule'', ''cherry_sapling'',
   ''bamboo_sapling'', ''ladder'', ''vine'', ''sugar_cane'', ''lily_pad'', ''cobweb'', ''string'',
   ''fire'', ''soul_fire'', ''end_rod'', ''lightning_rod'', ''chain'', ''scaffolding'',
   ''pointed_dripstone'', ''flower_pot'', ''potted_oak_sapling'', ''potted_spruce_sapling'',
   ''potted_birch_sapling'', ''potted_jungle_sapling'', ''potted_acacia_sapling'',
   ''potted_dark_oak_sapling'', ''potted_mangrove_propagule'', ''potted_cherry_sapling'',
   ''potted_fern'', ''potted_dandelion'', ''potted_poppy'', ''potted_blue_orchid'',
   ''potted_allium'', ''potted_azure_bluet'', ''potted_red_tulip'', ''potted_orange_tulip'',
   ''potted_white_tulip'', ''potted_pink_tulip'', ''potted_oxeye_daisy'', ''potted_cornflower'',
   ''potted_lily_of_the_valley'', ''potted_wither_rose'', ''potted_dead_bush'', ''potted_cactus'',
   ''potted_bamboo'', ''potted_crimson_fungus'', ''potted_warped_fungus'',
   ''potted_crimson_roots'', ''potted_warped_roots'', ''potted_azalea_bush'',
   ''potted_flowering_azalea_bush'', ''potted_torchflower'', ''wheat'', ''carrots'', ''potatoes'',
   ''beetroots'', ''nether_wart'', ''cocoa'', ''melon_stem'', ''pumpkin_stem'',
   ''attached_melon_stem'', ''attached_pumpkin_stem'', ''skeleton_skull'',
   ''skeleton_wall_skull'', ''wither_skeleton_skull'', ''wither_skeleton_wall_skull'',
   ''zombie_head'', ''zombie_wall_head'', ''player_head'', ''player_wall_head'', ''creeper_head'',
   ''creeper_wall_head'', ''dragon_head'', ''dragon_wall_head'', ''piglin_head'',
   ''piglin_wall_head'', ''white_banner'', ''orange_banner'', ''magenta_banner'',
   ''light_blue_banner'', ''yellow_banner'', ''lime_banner'', ''pink_banner'', ''gray_banner'',
   ''light_gray_banner'', ''cyan_banner'', ''purple_banner'', ''blue_banner'', ''brown_banner'',
   ''green_banner'', ''red_banner'', ''black_banner'', ''white_wall_banner'',
   ''orange_wall_banner'', ''magenta_wall_banner'', ''light_blue_wall_banner'',
   ''yellow_wall_banner'', ''lime_wall_banner'', ''pink_wall_banner'', ''gray_wall_banner'',
   ''light_gray_wall_banner'', ''cyan_wall_banner'', ''purple_wall_banner'', ''blue_wall_banner'',
   ''brown_wall_banner'', ''green_wall_banner'', ''red_wall_banner'', ''black_wall_banner'',
   ''brewing_stand'', ''cauldron'', ''water_cauldron'', ''lava_cauldron'',
   ''powder_snow_cauldron'', ''anvil'', ''chipped_anvil'', ''damaged_anvil'', ''oak_fence'',
   ''spruce_fence'', ''birch_fence'', ''jungle_fence'', ''acacia_fence'', ''dark_oak_fence'',
   ''mangrove_fence'', ''cherry_fence'', ''bamboo_fence'', ''crimson_fence'', ''warped_fence'',
   ''nether_brick_fence'', ''oak_fence_gate'', ''spruce_fence_gate'', ''birch_fence_gate'',
   ''jungle_fence_gate'', ''acacia_fence_gate'', ''dark_oak_fence_gate'', ''mangrove_fence_gate'',
   ''cherry_fence_gate'', ''bamboo_fence_gate'', ''crimson_fence_gate'', ''warped_fence_gate'',
   ''cobblestone_wall'', ''mossy_cobblestone_wall'', ''stone_brick_wall'',
   ''mossy_stone_brick_wall'', ''granite_wall'', ''diorite_wall'', ''andesite_wall'',
   ''brick_wall'', ''sandstone_wall'', ''red_sandstone_wall'', ''prismarine_wall'',
   ''nether_brick_wall'', ''red_nether_brick_wall'', ''blackstone_wall'',
   ''polished_blackstone_wall'', ''polished_blackstone_brick_wall'', ''end_stone_brick_wall'',
   ''cobbled_deepslate_wall'', ''polished_deepslate_wall'', ''deepslate_brick_wall'',
   ''deepslate_tile_wall'', ''mud_brick_wall'']"

definition special_parts :: "(string \<times> string) list" where
  "special_parts = [
   (''slab'', ''3024''), (''stair'', ''54200'')]"

definition rotations :: "(string \<times> string) list" where
  "rotations = [
   (''north'', ''1 0 0 0 1 0 0 0 1''), (''east'', ''0 0 -1 0 1 0 1 0 0''),
   (''south'', ''-1 0 0 0 1 0 0 0 -1''), (''west'', ''0 0 1 0 1 0 -1 0 0'')]"

definition wool_color_mappings :: "(int \<times> int) list" where
  "wool_color_mappings = [
   (0, 15), (1, 25), (2, 13), (3, 9), (4, 14), (5, 27), (6, 13), (7, 8), (8, 7), (9, 11), (10, 5),
   (11, 1), (12, 6), (13, 2), (14, 4), (15, 0)]"

definition block_colors :: "(int \<times> int) list" where
  "block_colors = [
   (1, 71), (2, 10), (3, 6), (4, 72), (5, 70), (6, 10), (7, 0), (8, 73), (9, 73), (10, 25),
   (11, 25), (12, 19), (13, 71), (14, 14), (15, 71), (16, 0), (17, 70), (18, 2), (19, 14),
   (20, 47), (21, 1), (22, 1), (23, 72), (24, 19), (25, 70), (26, 4), (27, 14), (28, 70),
   (29, 27), (30, 15), (31, 2), (32, 6), (33, 70), (34, 19), (35, 15), (37, 14), (38, 4), (39, 6),
   (40, 4), (41, 14), (42, 71), (43, 71), (44, 71), (45, 320), (46, 4), (47, 70), (48, 378),
   (49, 0), (50, 25), (51, 25), (52, 9), (53, 70), (54, 70), (55, 4), (56, 41), (57, 41),
   (58, 70), (59, 326), (60, 6), (61, 72), (62, 72), (63, 70), (64, 70), (65, 70), (66, 72),
   (67, 72), (68, 70), (69, 72), (70, 71), (71, 71), (72, 70), (73, 4), (74, 4), (75, 4), (76, 4),
   (77, 71), (78, 15), (79, 41), (80, 15), (81, 288), (82, 71), (83, 27), (84, 70), (85, 70),
   (86, 25), (87, 320), (88, 6), (89, 326), (90, 85), (91, 25), (92, 15), (93, 71), (94, 71),
   (95, 47), (96, 70), (97, 71), (98, 71), (99, 6), (100, 4), (101, 72), (102, 47), (103, 10),
   (104, 2), (105, 2), (106, 2), (107, 70), (108, 320), (109, 71), (110, 379), (111, 10),
   (112, 320), (113, 320), (114, 320), (115, 4), (116, 41), (117, 85), (118, 72), (119, 0),
   (120, 378), (121, 326), (122, 0), (123, 25), (124, 25), (125, 70), (126, 70), (127, 2),
   (128, 19), (129, 10), (130, 85), (131, 70), (132, 7), (133, 10), (134, 70), (135, 191),
   (136, 70), (137, 25), (138, 41), (139, 72), (140, 70), (141, 2), (142, 2), (143, 70),
   (144, 15), (145, 72), (146, 70), (147, 14), (148, 71), (149, 71), (150, 71), (151, 70),
   (152, 4), (153, 320), (154, 72), (155, 15), (156, 15), (157, 70), (158, 72), (159, 15),
   (160, 47), (161, 10), (162, 70), (163, 484), (164, 6), (165, 27), (166, 47), (167, 71),
   (168, 11), (169, 41), (170, 14), (171, 15), (172, 28), (173, 0), (174, 41), (175, 2),
   (176, 15), (177, 15), (178, 70), (179, 484), (180, 484), (181, 484), (182, 484), (183, 70),
   (184, 191), (185, 70), (186, 6), (187, 484), (188, 70), (189, 191), (190, 70), (191, 6),
   (192, 484), (193, 70), (194, 191), (195, 70), (196, 484), (197, 6), (198, 4), (199, 85),
   (200, 85), (201, 85), (202, 85), (203, 85), (204, 85), (205, 85), (206, 326), (207, 2),
   (208, 6), (209, 0), (210, 25), (211, 27), (212, 41), (213, 25), (214, 320), (215, 320),
   (216, 15), (217, 85), (218, 72), (219, 15), (220, 25), (221, 5), (222, 9), (223, 14),
   (224, 27), (225, 13), (226, 8), (227, 7), (228, 11), (229, 85), (230, 1), (231, 6), (232, 2),
   (233, 4), (234, 0), (235, 15), (236, 25), (237, 5), (238, 9), (239, 14), (240, 27), (241, 13),
   (242, 8), (243, 7), (244, 11), (245, 85), (246, 1), (247, 6), (248, 2), (249, 4), (250, 0),
   (251, 15), (252, 15), (255, 72)]"

text \<open>The table local to \<^verbatim>\<open>_block_name_to_id\<close>.\<close>

definition name_to_id :: "(string \<times> int) list" where
  "name_to_id = [
   (''air'', 0), (''stone'', 1), (''grass_block'', 2), (''dirt'', 3), (''cobblestone'', 4),
   (''bedrock'', 7), (''water'', 8), (''lava'', 10), (''sand'', 12), (''gravel'', 13),
   (''gold_ore'', 14), (''iron_ore'', 15), (''coal_ore'', 16), (''glass'', 20),
   (''glass_pane'', 20), (''tinted_glass'', 20), (''gold_block'', 41), (''iron_block'', 42),
   (''bricks'', 45), (''tnt'', 46), (''obsidian'', 49), (''diamond_ore'', 56),
   (''diamond_block'', 57), (''redstone_ore'', 73), (''ice'', 79), (''snow_block'', 80),
   (''clay'', 82), (''netherrack'', 87), (''glowstone'', 89), (''stone_bricks'', 98),
   (''emerald_block'', 133), (''redstone_block'', 152), (''quartz_block'', 155),
   (''coal_block'', 173), (''packed_ice'', 174)]"

text \<open>The table local to \<^verbatim>\<open>_get_color_from_block_name\<close>; \<open>- 1\<close> is the entry of air.\<close>

definition block_to_color :: "(string \<times> int) list" where
  "block_to_color = [
   (''air'', - 1), (''stone'', 71), (''cobblestone'', 72), (''mossy_cobblestone'', 378),
   (''granite'', 25), (''polished_granite'', 25), (''diorite'', 7), (''polished_diorite'', 7),
   (''andesite'', 8), (''polished_andesite'', 8), (''grass_block'', 10), (''dirt'', 6),
   (''coarse_dirt'', 6), (''podzol'', 6), (''bedrock'', 0), (''sand'', 19), (''red_sand'', 25),
   (''gravel'', 71), (''sandstone'', 19), (''red_sandstone'', 484), (''smooth_sandstone'', 19),
   (''gold_ore'', 14), (''deepslate_gold_ore'', 14), (''nether_gold_ore'', 14),
   (''iron_ore'', 71), (''deepslate_iron_ore'', 71), (''coal_ore'', 0),
   (''deepslate_coal_ore'', 0), (''diamond_ore'', 41), (''deepslate_diamond_ore'', 41),
   (''emerald_ore'', 10), (''deepslate_emerald_ore'', 10), (''lapis_ore'', 1),
   (''deepslate_lapis_ore'', 1), (''redstone_ore'', 4), (''deepslate_redstone_ore'', 4),
   (''copper_ore'', 484), (''deepslate_copper_ore'', 484), (''gold_block'', 14),
   (''iron_block'', 71), (''diamond_block'', 41), (''emerald_block'', 10), (''lapis_block'', 1),
   (''redstone_block'', 4), (''coal_block'', 0), (''copper_block'', 484),
   (''raw_copper_block'', 484), (''raw_iron_block'', 71), (''raw_gold_block'', 14),
   (''netherite_block'', 0), (''ancient_debris'', 6), (''amethyst_block'', 85),
   (''budding_amethyst'', 85), (''glass'', 47), (''glass_pane'', 47), (''tinted_glass'', 8),
   (''white_stained_glass'', 47), (''white_stained_glass_pane'', 47),
   (''orange_stained_glass'', 182), (''orange_stained_glass_pane'', 182),
   (''magenta_stained_glass'', 113), (''magenta_stained_glass_pane'', 113),
   (''light_blue_stained_glass'', 41), (''light_blue_stained_glass_pane'', 41),
   (''yellow_stained_glass'', 46), (''yellow_stained_glass_pane'', 46),
   (''lime_stained_glass'', 35), (''lime_stained_glass_pane'', 35), (''pink_stained_glass'', 113),
   (''pink_stained_glass_pane'', 113), (''gray_stained_glass'', 40),
   (''gray_stained_glass_pane'', 40), (''light_gray_stained_glass'', 40),
   (''light_gray_stained_glass_pane'', 40), (''cyan_stained_glass'', 41),
   (''cyan_stained_glass_pane'', 41), (''purple_stained_glass'', 52),
   (''purple_stained_glass_pane'', 52), (''blue_stained_glass'', 33),
   (''blue_stained_glass_pane'', 33), (''brown_stained_glass'', 111),
   (''brown_stained_glass_pane'', 111), (''green_stained_glass'', 34),
   (''green_stained_glass_pane'', 34), (''red_stained_glass'', 36),
   (''red_stained_glass_pane'', 36), (''black_stained_glass'', 40),
   (''black_stained_glass_pane'', 40), (''white_wool'', 15), (''orange_wool'', 25),
   (''magenta_wool'', 5), (''light_blue_wool'', 9), (''yellow_wool'', 14), (''lime_wool'', 27),
   (''pink_wool'', 13), (''gray_wool'', 8), (''light_gray_wool'', 7), (''cyan_wool'', 11),
   (''purple_wool'', 85), (''blue_wool'', 1), (''brown_wool'', 6), (''green_wool'', 2),
   (''red_wool'', 4), (''black_wool'', 0), (''white_carpet'', 15), (''orange_carpet'', 25),
   (''magenta_carpet'', 5), (''light_blue_carpet'', 9), (''yellow_carpet'', 14),
   (''lime_carpet'', 27), (''pink_carpet'', 13), (''gray_carpet'', 8), (''light_gray_carpet'', 7),
   (''cyan_carpet'', 11), (''purple_carpet'', 85), (''blue_carpet'', 1), (''brown_carpet'', 6),
   (''green_carpet'', 2), (''red_carpet'', 4), (''black_carpet'', 0), (''moss_carpet'', 10),
   (''white_concrete'', 15), (''orange_concrete'', 25), (''magenta_concrete'', 5),
   (''light_blue_concrete'', 9), (''yellow_concrete'', 14), (''lime_concrete'', 27),
   (''pink_concrete'', 13), (''gray_concrete'', 8), (''light_gray_concrete'', 7),
   (''cyan_concrete'', 11), (''purple_concrete'', 85), (''blue_concrete'', 1),
   (''brown_concrete'', 6), (''green_concrete'', 2), (''red_concrete'', 4),
   (''black_concrete'', 0), (''terracotta'', 28), (''white_terracotta'', 15),
   (''orange_terracotta'', 25), (''magenta_terracotta'', 5), (''light_blue_terracotta'', 9),
   (''yellow_terracotta'', 14), (''lime_terracotta'', 27), (''pink_terracotta'', 13),
   (''gray_terracotta'', 8), (''light_gray_terracotta'', 7), (''cyan_terracotta'', 11),
   (''purple_terracotta'', 85), (''blue_terracotta'', 1), (''brown_terracotta'', 6),
   (''green_terracotta'', 2), (''red_terracotta'', 4), (''black_terracotta'', 0),
   (''oak_planks'', 70), (''spruce_planks'', 6), (''birch_planks'', 19), (''jungle_planks'', 70),
   (''acacia_planks'', 484), (''dark_oak_planks'', 6), (''mangrove_planks'', 4),
   (''cherry_planks'', 13), (''bamboo_planks'', 14), (''crimson_planks'', 320),
   (''warped_planks'', 11), (''oak_log'', 70), (''spruce_log'', 6), (''birch_log'', 15),
   (''jungle_log'', 70), (''acacia_log'', 484), (''dark_oak_log'', 6), (''mangrove_log'', 70),
   (''cherry_log'', 13), (''crimson_stem'', 320), (''warped_stem'', 11), (''bamboo_block'', 14),
   (''oak_leaves'', 2), (''spruce_leaves'', 288), (''birch_leaves'', 10), (''jungle_leaves'', 2),
   (''acacia_leaves'', 2), (''dark_oak_leaves'', 288), (''mangrove_leaves'', 2),
   (''cherry_leaves'', 13), (''azalea_leaves'', 2), (''flowering_azalea_leaves'', 13),
   (''netherrack'', 320), (''nether_bricks'', 320), (''red_nether_bricks'', 320),
   (''soul_sand'', 6), (''soul_soil'', 6), (''basalt'', 8), (''smooth_basalt'', 8),
   (''blackstone'', 0), (''polished_blackstone'', 0), (''polished_blackstone_bricks'', 0),
   (''glowstone'', 326), (''shroomlight'', 326), (''nether_wart_block'', 320),
   (''warped_wart_block'', 11), (''crying_obsidian'', 85), (''respawn_anchor'', 0),
   (''end_stone'', 326), (''end_stone_bricks'', 326), (''purpur_block'', 85),
   (''purpur_pillar'', 85), (''obsidian'', 0), (''bricks'', 320), (''stone_bricks'', 71),
   (''mossy_stone_bricks'', 378), (''cracked_stone_bricks'', 72), (''chiseled_stone_bricks'', 71),
   (''prismarine'', 11), (''prismarine_bricks'', 11), (''dark_prismarine'', 288),
   (''sea_lantern'', 41), (''ice'', 41), (''packed_ice'', 41), (''blue_ice'', 41),
   (''snow_block'', 15), (''snow'', 15), (''powder_snow'', 15), (''clay'', 71), (''mud'', 6),
   (''mud_bricks'', 6), (''packed_mud'', 6), (''water'', 73), (''lava'', 25), (''fire'', 25),
   (''soul_fire'', 11), (''tnt'', 4), (''bookshelf'', 70), (''hay_block'', 14), (''sponge'', 14),
   (''wet_sponge'', 14), (''melon'', 10), (''pumpkin'', 25), (''carved_pumpkin'', 25),
   (''jack_o_lantern'', 25), (''cactus'', 288), (''bamboo'', 10), (''moss_block'', 10),
   (''moss_carpet'', 10), (''sculk'', 11), (''sculk_catalyst'', 11), (''honeycomb_block'', 14),
   (''honey_block'', 14), (''slime_block'', 27), (''deepslate'', 72), (''cobbled_deepslate'', 72),
   (''polished_deepslate'', 72), (''deepslate_bricks'', 72), (''deepslate_tiles'', 72),
   (''chiseled_deepslate'', 72), (''reinforced_deepslate'', 72), (''tuff'', 71),
   (''calcite'', 15), (''dripstone_block'', 19), (''quartz_block'', 15), (''quartz_bricks'', 15),
   (''quartz_pillar'', 15), (''chiseled_quartz_block'', 15), (''smooth_quartz'', 15),
   (''oak_stairs'', 70), (''spruce_stairs'', 6), (''birch_stairs'', 19), (''jungle_stairs'', 70),
   (''acacia_stairs'', 484), (''dark_oak_stairs'', 6), (''mangrove_stairs'', 70),
   (''cherry_stairs'', 13), (''bamboo_stairs'', 14), (''crimson_stairs'', 320),
   (''warped_stairs'', 11), (''stone_stairs'', 71), (''cobblestone_stairs'', 72),
   (''mossy_cobblestone_stairs'', 378), (''stone_brick_stairs'', 71),
   (''mossy_stone_brick_stairs'', 378), (''granite_stairs'', 25),
   (''polished_granite_stairs'', 25), (''diorite_stairs'', 7), (''polished_diorite_stairs'', 7),
   (''andesite_stairs'', 8), (''polished_andesite_stairs'', 8), (''brick_stairs'', 320),
   (''sandstone_stairs'', 19), (''red_sandstone_stairs'', 484), (''smooth_sandstone_stairs'', 19),
   (''smooth_red_sandstone_stairs'', 484), (''prismarine_stairs'', 11),
   (''prismarine_brick_stairs'', 11), (''dark_prismarine_stairs'', 288),
   (''nether_brick_stairs'', 320), (''red_nether_brick_stairs'', 320), (''quartz_stairs'', 15),
   (''smooth_quartz_stairs'', 15), (''purpur_stairs'', 85), (''end_stone_brick_stairs'', 326),
   (''blackstone_stairs'', 0), (''polished_blackstone_stairs'', 0),
   (''polished_blackstone_brick_stairs'', 0), (''deepslate_brick_stairs'', 72),
   (''deepslate_tile_stairs'', 72), (''cobbled_deepslate_stairs'', 72),
   (''cut_copper_stairs'', 484), (''exposed_cut_copper_stairs'', 378),
   (''weathered_cut_copper_stairs'', 10), (''oxidized_cut_copper_stairs'', 11),
   (''mud_brick_stairs'', 6), (''oak_slab'', 70), (''spruce_slab'', 6), (''birch_slab'', 19),
   (''jungle_slab'', 70), (''acacia_slab'', 484), (''dark_oak_slab'', 6), (''mangrove_slab'', 70),
   (''cherry_slab'', 13), (''bamboo_slab'', 14), (''crimson_slab'', 320), (''warped_slab'', 11),
   (''stone_slab'', 71), (''cobblestone_slab'', 72), (''mossy_cobblestone_slab'', 378),
   (''stone_brick_slab'', 71), (''mossy_stone_brick_slab'', 378), (''granite_slab'', 25),
   (''polished_granite_slab'', 25), (''diorite_slab'', 7), (''polished_diorite_slab'', 7),
   (''andesite_slab'', 8), (''polished_andesite_slab'', 8), (''brick_slab'', 320),
   (''sandstone_slab'', 19), (''red_sandstone_slab'', 484), (''smooth_sandstone_slab'', 19),
   (''smooth_red_sandstone_slab'', 484), (''cut_sandstone_slab'', 19),
   (''cut_red_sandstone_slab'', 484), (''prismarine_slab'', 11), (''prismarine_brick_slab'', 11),
   (''dark_prismarine_slab'', 288), (''nether_brick_slab'', 320),
   (''red_nether_brick_slab'', 320), (''quartz_slab'', 15), (''smooth_quartz_slab'', 15),
   (''purpur_slab'', 85), (''end_stone_brick_slab'', 326), (''blackstone_slab'', 0),
   (''polished_blackstone_slab'', 0), (''polished_blackstone_brick_slab'', 0),
   (''deepslate_brick_slab'', 72), (''deepslate_tile_slab'', 72),
   (''cobbled_deepslate_slab'', 72), (''cut_copper_slab'', 484),
   (''exposed_cut_copper_slab'', 378), (''weathered_cut_copper_slab'', 10),
   (''oxidized_cut_copper_slab'', 11), (''mud_brick_slab'', 6), (''smooth_stone_slab'', 71),
   (''glass_pane'', 47), (''iron_bars'', 72), (''white_stained_glass_pane'', 47),
   (''orange_stained_glass_pane'', 182), (''magenta_stained_glass_pane'', 113),
   (''light_blue_stained_glass_pane'', 41), (''yellow_stained_glass_pane'', 46),
   (''lime_stained_glass_pane'', 35), (''pink_stained_glass_pane'', 113),
   (''gray_stained_glass_pane'', 40), (''light_gray_stained_glass_pane'', 40),
   (''cyan_stained_glass_pane'', 41), (''purple_stained_glass_pane'', 52),
   (''blue_stained_glass_pane'', 33), (''brown_stained_glass_pane'', 111),
   (''green_stained_glass_pane'', 34), (''red_stained_glass_pane'', 36),
   (''black_stained_glass_pane'', 40)]"

text \<open>The set local to \<^verbatim>\<open>get_brick_info\<close>.\<close>

definition color_data_blocks :: "int list" where
  "color_data_blocks = [
   35, 95, 159, 160, 171, 251, 252]"


section \<open>Block classification and colour\<close>

text \<open>
  \<^verbatim>\<open>_block_name_to_id\<close>, \<^verbatim>\<open>_is_skip_block\<close> and \<^verbatim>\<open>_get_color_from_block_name\<close> all begin with
  the same two statements, \<^verbatim>\<open>name = block_name.replace("minecraft:", "")\<close> and
  \<^verbatim>\<open>if "[" in name: name = name.split("[")[0]\<close>; they are \<open>strip_name\<close>.
\<close>

definition strip_name :: "string \<Rightarrow> string" where
  "strip_name block_name =
     (let name = str_remove ''minecraft:'' block_name
      in if CHR ''['' \<in> set name then hd (str_split CHR ''['' name) else name)"

definition block_name_to_id :: "string \<Rightarrow> int" where
  "block_name_to_id block_name = dict_get_default name_to_id (strip_name block_name) 1"

definition is_skip_block :: "string \<Rightarrow> bool" where
  "is_skip_block block_name = (strip_name block_name \<in> set skip_blocks)"

definition get_color_from_block_name :: "string \<Rightarrow> int" where
  "get_color_from_block_name block_name =
     (let name = strip_name block_name;
          lookup_name = (if CHR ''['' \<in> set name then hd (str_split CHR ''['' name) else name)
      in dict_get_default block_to_color lookup_name 7)"

definition get_brick_info :: "int \<Rightarrow> int \<Rightarrow> string \<times> int" where
  "get_brick_info block_id data_value =
     (let brick_type = default_brick;
          color_id = dict_get_default block_colors block_id 7;
          color_id = (if block_id \<in> set color_data_blocks
                          \<and> dict_get wool_color_mappings data_value \<noteq> None
                      then the (dict_get wool_color_mappings data_value) else color_id)
      in (brick_type, color_id))"

text \<open>
  \<^verbatim>\<open>_parse_block_state\<close>: the properties dictionary is the list of \<open>(key, value)\<close> pairs in
  the order they are stored (read with \<open>dict_get\<close>, so that a repeated key keeps its last
  value).
\<close>

definition parse_block_state :: "string \<Rightarrow> string \<times> (string \<times> string) list" where
  "parse_block_state block_name =
     (let name = str_remove ''minecraft:'' block_name
      in if CHR ''['' \<in> set name
         then (let base_name = hd (str_split CHR ''['' name);
                   props_str = rstrip_char CHR '']'' (str_split CHR ''['' name ! 1);
                   properties = concat (map (\<lambda>prop.
                       if CHR ''='' \<in> set prop
                       then [(takeWhile (\<lambda>c. c \<noteq> CHR ''='') prop,
                              tl (dropWhile (\<lambda>c. c \<noteq> CHR ''='') prop))]
                       else []) (str_split CHR '','' props_str))
               in (base_name, properties))
         else (name, []))"

subsection \<open>Numbers as text\<close>

text \<open>
  \<open>show_int\<close> is \<^verbatim>\<open>str\<close> on an integer. \<open>fmt_2f\<close> is the format specification \<^verbatim>\<open>:.2f\<close>.
  Positions are Python floats in the source; every position the converter computes is an
  integer or half-integer number of voxels times \<open>20 * scale\<close> or \<open>24 * scale\<close>, which
  binary floating point represents exactly, so that the model computes with rationals.
\<close>

definition digit_char :: "nat \<Rightarrow> char" where
  "digit_char d = ''0123456789'' ! d"

function show_nat :: "nat \<Rightarrow> string" where
  "show_nat n = (if n < 10 then [digit_char n] else show_nat (n div 10) @ [digit_char (n mod 10)])"
  by pat_completeness auto
termination
  by (relation "measure id") auto

declare show_nat.simps [simp del]

definition show_int :: "int \<Rightarrow> string" where
  "show_int i = (if i < 0 then CHR ''-'' # show_nat (nat (- i)) else show_nat (nat i))"

definition round_half_even :: "rat \<Rightarrow> int" where
  "round_half_even q =
     (let f = \<lfloor>q\<rfloor>; d = q - of_int f
      in if d < 1 / 2 then f else if d > 1 / 2 then f + 1 else if even f then f else f + 1)"

definition fmt_2f :: "rat \<Rightarrow> string" where
  "fmt_2f q =
     (let n = nat (round_half_even (\<bar>q\<bar> * 100))
      in (if q < 0 then ''-'' else []) @ show_nat (n div 100) @ ''.''
           @ [digit_char (n mod 100 div 10), digit_char (n mod 10)])"

subsection \<open>Rotation strings\<close>

text \<open>
  \<^verbatim>\<open>_flip_rotation_y\<close> reads the nine numbers of a rotation string with \<^verbatim>\<open>float\<close>, negates
  those at positions 3 to 8 and prints each integral value \<open>v\<close> as \<^verbatim>\<open>str(int(v))\<close>. It is
  only ever applied to an entry of \<open>rotations\<close>, whose tokens are integers. The model
  reads integer tokens; \<open>None\<close> stands for every other input (a token that is not an
  integer, or fewer than nine tokens, where the source raises).
\<close>

definition str_words :: "string \<Rightarrow> string list" where
  "str_words s = filter (\<lambda>w. w \<noteq> []) (str_split CHR '' '' s)"

definition digit_value :: "char \<Rightarrow> nat option" where
  "digit_value c = (if c \<in> set ''0123456789'' then Some (of_char c - 48) else None)"

fun read_nat :: "nat \<Rightarrow> string \<Rightarrow> nat option" where
  "read_nat acc [] = Some acc"
| "read_nat acc (c # cs) =
     (case digit_value c of None \<Rightarrow> None | Some d \<Rightarrow> read_nat (10 * acc + d) cs)"

definition read_int :: "string \<Rightarrow> int option" where
  "read_int s =
     (case s of
        [] \<Rightarrow> None
      | c # cs \<Rightarrow>
          if c = CHR ''-'' then (if cs = [] then None else map_option (\<lambda>n. - int n) (read_nat 0 cs))
          else map_option int (read_nat 0 (c # cs)))"

fun sequence_option :: "'a option list \<Rightarrow> 'a list option" where
  "sequence_option [] = Some []"
| "sequence_option (None # xs) = None"
| "sequence_option (Some x # xs) = map_option ((#) x) (sequence_option xs)"

fun join_words :: "string list \<Rightarrow> string" where
  "join_words [] = []"
| "join_words [w] = w"
| "join_words (w # v # ws) = w @ '' '' @ join_words (v # ws)"

definition flip_rotation_y :: "string \<Rightarrow> string option" where
  "flip_rotation_y rotation_str =
     (case sequence_option (map read_int (str_words rotation_str)) of
        None \<Rightarrow> None
      | Some vals \<Rightarrow>
          if length vals < 9 then None
          else Some (join_words (map show_int
                 (map (\<lambda>(i, v). if 3 \<le> i \<and> i < 9 then - v else v) (enumerate 0 vals)))))"

subsection \<open>Special parts\<close>

text \<open>
  The dictionary returned by \<^verbatim>\<open>_get_special_part_info\<close>; a key that a branch does not set
  is \<open>None\<close>. The debug counters and prints of the source are not part of the model.
\<close>

record special_info =
  si_part :: string
  si_rotation :: string
  si_y_offset :: int
  si_type :: string
  si_facing :: "string option"
  si_half :: "string option"
  si_slab_type :: "string option"

definition identity_rotation :: string where
  "identity_rotation = ''1 0 0 0 1 0 0 0 1''"

definition get_special_part_info :: "string \<Rightarrow> special_info option" where
  "get_special_part_info block_name =
     (case parse_block_state block_name of (base_name, props) \<Rightarrow>
        if str_contains ''stairs'' base_name \<or> str_contains ''stair'' base_name then
          (let facing = dict_get_default props ''facing'' ''north'';
               half = dict_get_default props ''half'' ''bottom'';
               rotation = dict_get_default rotations facing (the (dict_get rotations ''north''));
               y_offset = 0;
               (rotation, y_offset) =
                  (if half = ''top''
                   then (case flip_rotation_y rotation of Some r \<Rightarrow> r | None \<Rightarrow> rotation, 24)
                   else (rotation, y_offset))
           in Some \<lparr>si_part = the (dict_get special_parts ''stair''), si_rotation = rotation,
                    si_y_offset = y_offset, si_type = ''stair'', si_facing = Some facing,
                    si_half = Some half, si_slab_type = None\<rparr>)
        else if str_contains ''slab'' base_name then
          (let slab_type = dict_get_default props ''type'' ''bottom''
           in if slab_type = ''double'' then None
              else (let y_offset = (if slab_type = ''top'' then 0 else 16)
                    in Some \<lparr>si_part = the (dict_get special_parts ''slab''),
                             si_rotation = the (dict_get rotations ''north''),
                             si_y_offset = y_offset, si_type = ''slab'', si_facing = None,
                             si_half = None, si_slab_type = Some slab_type\<rparr>))
        else if str_contains ''carpet'' base_name then
          Some \<lparr>si_part = the (dict_get special_parts ''slab''),
                si_rotation = the (dict_get rotations ''north''),
                si_y_offset = 16, si_type = ''carpet'', si_facing = None,
                si_half = None, si_slab_type = None\<rparr>
        else None)"


section \<open>Conversion\<close>

text \<open>
  The dictionary \<^verbatim>\<open>schematic_data\<close> that the loaders return and the converters read.
  \<open>sd_blocks\<close> is the array \<^verbatim>\<open>blocks\<close> of shape \<open>(height, length, width)\<close> in row-major
  order, so that \<^verbatim>\<open>blocks[y, z, x]\<close> is the entry at \<open>y * length * width + z * width + x\<close>;
  \<open>sd_data\<close> is the flat \<^verbatim>\<open>data\<close> array of the old format and \<open>sd_block_names\<close> the list
  \<^verbatim>\<open>block_names\<close> of the new one. \<open>len\<close> stands for the source's \<^verbatim>\<open>length\<close> (the Z extent).
\<close>

record schematic_data =
  sd_width :: nat
  sd_height :: nat
  sd_length :: nat
  sd_blocks :: "int list"
  sd_data :: "int list option"
  sd_block_names :: "string list option"

definition data_index :: "schematic_data \<Rightarrow> nat \<Rightarrow> nat \<Rightarrow> nat \<Rightarrow> nat" where
  "data_index sd y z x = y * sd_length sd * sd_width sd + z * sd_width sd + x"

definition blocks_at :: "schematic_data \<Rightarrow> nat \<Rightarrow> nat \<Rightarrow> nat \<Rightarrow> int" where
  "blocks_at sd y z x = sd_blocks sd ! data_index sd y z x"

definition well_shaped :: "schematic_data \<Rightarrow> bool" where
  "well_shaped sd = (length (sd_blocks sd) = sd_height sd * sd_length sd * sd_width sd)"

text \<open>The three nested \<^verbatim>\<open>for\<close> loops over \<open>y\<close>, \<open>z\<close>, \<open>x\<close> visit the cells in this order.\<close>

type_synonym cell = "nat \<times> nat \<times> nat"

definition grid_cells :: "nat \<Rightarrow> nat \<Rightarrow> nat \<Rightarrow> cell list" where
  "grid_cells height len width =
     concat (map (\<lambda>y. concat (map (\<lambda>z. map (\<lambda>x. (y, z, x)) [0..<width]) [0..<len])) [0..<height])"

text \<open>
  Every placement line of the source is an f-string of one shape:
  \<^verbatim>\<open>f"1 {color_id} {x:.2f} {y:.2f} {z:.2f} {rotation} {brick_type}.dat"\<close>.
\<close>

definition ldraw_line :: "int \<Rightarrow> rat \<Rightarrow> rat \<Rightarrow> rat \<Rightarrow> string \<Rightarrow> string \<Rightarrow> string" where
  "ldraw_line color_id lx ly lz rotation brick_type =
     ''1 '' @ show_int color_id @ '' '' @ fmt_2f lx @ '' '' @ fmt_2f ly @ '' '' @ fmt_2f lz
       @ '' '' @ rotation @ '' '' @ brick_type @ ''.dat''"

text \<open>\<^verbatim>\<open>_emit_block_2x\<close>: the lines it appends (the count it returns is their number).\<close>

definition emit_block_2x ::
  "rat \<Rightarrow> int \<Rightarrow> rat \<Rightarrow> int \<Rightarrow> special_info option \<Rightarrow> string list" where
  "emit_block_2x base_x base_y base_z color_id special_info =
     (let identity = ''1 0 0 0 1 0 0 0 1'';
          full_block =
            [ldraw_line color_id base_x (of_int base_y) base_z identity ''3003'',
             ldraw_line color_id base_x (of_int (base_y + 24)) base_z identity ''3003'']
      in case special_info of
           None \<Rightarrow> full_block
         | Some info \<Rightarrow>
             if si_type info = ''stair'' then
               (let half = (case si_half info of Some h \<Rightarrow> h | None \<Rightarrow> ''bottom'')
                in if half = ''bottom''
                   then [ldraw_line color_id base_x (of_int (base_y + 24)) base_z identity ''3003'',
                         ldraw_line color_id base_x (of_int (base_y + 16)) base_z identity ''3022'']
                   else [ldraw_line color_id base_x (of_int base_y) base_z identity ''3003'',
                         ldraw_line color_id base_x (of_int (base_y + 24)) base_z identity ''3022''])
             else if si_type info = ''slab'' then
               (let slab_type = (case si_slab_type info of Some t \<Rightarrow> t | None \<Rightarrow> ''bottom'')
                in if slab_type = ''bottom''
                   then [ldraw_line color_id base_x (of_int (base_y + 24)) base_z identity ''3003'']
                   else [ldraw_line color_id base_x (of_int base_y) base_z identity ''3003''])
             else if si_type info = ''carpet'' then
               [ldraw_line color_id base_x (of_int (base_y + 40)) base_z identity ''3022'']
             else full_block)"

text \<open>
  The part of the loop bodies of \<^verbatim>\<open>_convert_standard\<close> and of the first pass of
  \<^verbatim>\<open>_convert_optimized\<close> that decides whether the voxel is passed over (\<^verbatim>\<open>continue\<close>,
  \<open>None\<close> here) and otherwise yields its block name, when one is read, and its colour.
\<close>

definition voxel_color :: "schematic_data \<Rightarrow> nat \<Rightarrow> nat \<Rightarrow> nat \<Rightarrow> (string option \<times> int) option" where
  "voxel_color sd y z x =
     (let block_id = blocks_at sd y z x
      in if block_id = 0 then None
         else (case sd_block_names sd of
                 Some block_names \<Rightarrow>
                   if data_index sd y z x < length block_names then
                     (let block_name = block_names ! data_index sd y z x;
                          color_id = get_color_from_block_name block_name
                      in if color_id = - 1 then None
                         else if is_skip_block block_name then None
                         else Some (Some block_name, color_id))
                   else Some (None, 7)
               | None \<Rightarrow>
                   (let data_value =
                          (case sd_data sd of
                             Some data \<Rightarrow>
                               if data_index sd y z x < length data
                               then data ! data_index sd y z x else 0
                           | None \<Rightarrow> 0)
                    in Some (None, snd (get_brick_info block_id data_value)))))"

subsection \<open>One brick per voxel\<close>

definition standard_voxel :: "schematic_data \<Rightarrow> nat \<Rightarrow> nat \<Rightarrow> nat \<Rightarrow> nat \<Rightarrow> string list" where
  "standard_voxel sd scale y z x =
     (let width = sd_width sd; len = sd_length sd;
          stud_size = 20 * scale; brick_height = 24 * scale
      in case voxel_color sd y z x of
           None \<Rightarrow> []
         | Some (block_name, color_id) \<Rightarrow>
             (let special_info =
                    (case block_name of
                       Some name \<Rightarrow> if name \<noteq> [] then get_special_part_info name else None
                     | None \<Rightarrow> None);
                  ldraw_x = (of_nat x - of_nat width / 2) * of_nat stud_size;
                  ldraw_y = - int y * int brick_height;
                  ldraw_z = (of_nat z - of_nat len / 2) * of_nat stud_size
              in if scale = 2
                 then emit_block_2x ldraw_x ldraw_y ldraw_z color_id special_info
                 else (let (brick_type, rotation, y_offset) =
                             (case special_info of
                                Some info \<Rightarrow> (si_part info, si_rotation info, si_y_offset info)
                              | None \<Rightarrow> (default_brick, ''1 0 0 0 1 0 0 0 1'', 0))
                       in [ldraw_line color_id ldraw_x (of_int (ldraw_y + y_offset)) ldraw_z
                             rotation brick_type])))"

definition convert_standard :: "schematic_data \<Rightarrow> string list \<Rightarrow> nat \<Rightarrow> string list" where
  "convert_standard sd ldraw_lines scale =
     fold (\<lambda>(y, z, x) lines. lines @ standard_voxel sd scale y z x)
       (grid_cells (sd_height sd) (sd_length sd) (sd_width sd)) ldraw_lines"

subsection \<open>Merged bricks\<close>

text \<open>
  The first pass of \<^verbatim>\<open>_convert_optimized\<close> fills \<^verbatim>\<open>color_grid\<close> (initially \<open>- 1\<close>) and
  \<^verbatim>\<open>special_blocks\<close> (initially false); the iteration for a cell writes that cell only,
  so each array is a function of the cell.
\<close>

definition color_grid :: "schematic_data \<Rightarrow> nat \<Rightarrow> nat \<Rightarrow> nat \<Rightarrow> int" where
  "color_grid sd y z x = (case voxel_color sd y z x of None \<Rightarrow> - 1 | Some (_, color_id) \<Rightarrow> color_id)"

definition special_blocks :: "schematic_data \<Rightarrow> nat \<Rightarrow> nat \<Rightarrow> nat \<Rightarrow> bool" where
  "special_blocks sd y z x =
     (case voxel_color sd y z x of
        Some (Some block_name, _) \<Rightarrow> get_special_part_info block_name \<noteq> None
      | _ \<Rightarrow> False)"

text \<open>
  The boolean array \<^verbatim>\<open>used\<close> is the set of the cells it holds true at. Each iteration that
  emits something is recorded as a \<open>placement\<close>: the cells it marks used, the colour, the
  special part information when it comes from the pass over special blocks, and the lines it
  appends to the output.
\<close>

record placement =
  p_cells :: "cell list"
  p_color :: int
  p_special :: "special_info option"
  p_lines :: "string list"

record merge_state =
  used :: "cell set"
  placements :: "placement list"

definition x_lengths :: "nat list" where
  "x_lengths = [8, 6, 4, 3, 2, 1]"

definition scale2_x_lengths :: "nat list" where
  "scale2_x_lengths = [4, 3, 2, 1]"

definition scale2_brick_map :: "(nat \<times> string) list" where
  "scale2_brick_map = [(1, ''3003''), (2, ''3001''), (3, ''2456''), (4, ''3007'')]"

text \<open>
  The inner \<^verbatim>\<open>for dx in range(x_len)\<close> loops that compute \<^verbatim>\<open>valid\<close> and \<^verbatim>\<open>can_extend_z\<close>:
  at scale 1 a cell of the run is rejected when it is used or has another colour, at scale 2
  also when it is a special block.
\<close>

definition run_valid :: "schematic_data \<Rightarrow> cell set \<Rightarrow> int \<Rightarrow> nat \<Rightarrow> nat \<Rightarrow> nat \<Rightarrow> nat \<Rightarrow> bool" where
  "run_valid sd usd color_id y z x x_len =
     list_all (\<lambda>dx. \<not> ((y, z, x + dx) \<in> usd \<or> color_grid sd y z (x + dx) \<noteq> color_id))
       [0..<x_len]"

definition run_valid_scale2 ::
  "schematic_data \<Rightarrow> cell set \<Rightarrow> int \<Rightarrow> nat \<Rightarrow> nat \<Rightarrow> nat \<Rightarrow> nat \<Rightarrow> bool" where
  "run_valid_scale2 sd usd color_id y z x x_len =
     list_all (\<lambda>dx. \<not> ((y, z, x + dx) \<in> usd \<or> color_grid sd y z (x + dx) \<noteq> color_id
                        \<or> special_blocks sd y z (x + dx)))
       [0..<x_len]"

text \<open>
  The loop \<^verbatim>\<open>for x_len in x_lengths\<close>: \<^verbatim>\<open>best_x_len\<close> starts at 1, a length that does not
  fit in the row is passed over, and the first valid length ends the loop.
\<close>

fun pick_x_len :: "(nat \<Rightarrow> bool) \<Rightarrow> nat \<Rightarrow> nat \<Rightarrow> nat list \<Rightarrow> nat" where
  "pick_x_len valid x width [] = 1"
| "pick_x_len valid x width (x_len # rest) =
     (if x + x_len > width then pick_x_len valid x width rest
      else if valid x_len then x_len
      else pick_x_len valid x width rest)"

definition merge_scale2 :: "schematic_data \<Rightarrow> nat \<Rightarrow> cell \<Rightarrow> merge_state \<Rightarrow> merge_state" where
  "merge_scale2 sd scale c st =
     (case c of (y, z, x) \<Rightarrow>
        (let width = sd_width sd; len = sd_length sd;
             stud_size = 20 * scale; brick_height = 24 * scale;
             color_id = color_grid sd y z x;
             best_x_len = pick_x_len (run_valid_scale2 sd (used st) color_id y z x) x width
                            scale2_x_lengths;
             cells = map (\<lambda>dx. (y, z, x + dx)) [0..<best_x_len];
             brick_type = the (dict_get scale2_brick_map best_x_len);
             center_x = of_nat x + (of_nat best_x_len - 1) / 2;
             ldraw_x = (center_x - of_nat width / 2) * of_nat stud_size;
             ldraw_y = - int y * int brick_height;
             ldraw_z = (of_nat z - of_nat len / 2) * of_nat stud_size;
             identity = ''1 0 0 0 1 0 0 0 1''
         in \<lparr>used = used st \<union> set cells,
             placements = placements st @
               [\<lparr>p_cells = cells, p_color = color_id, p_special = None,
                 p_lines = [ldraw_line color_id ldraw_x (of_int ldraw_y) ldraw_z identity brick_type,
                            ldraw_line color_id ldraw_x (of_int (ldraw_y + 24)) ldraw_z identity
                              brick_type]\<rparr>]\<rparr>))"

definition merge_scale1 :: "schematic_data \<Rightarrow> cell \<Rightarrow> merge_state \<Rightarrow> merge_state" where
  "merge_scale1 sd c st =
     (case c of (y, z, x) \<Rightarrow>
        (let width = sd_width sd; len = sd_length sd;
             color_id = color_grid sd y z x;
             best_x_len = pick_x_len (run_valid sd (used st) color_id y z x) x width x_lengths;
             best_z_len =
               (if z + 1 < len \<and> best_x_len \<ge> 2
                    \<and> run_valid sd (used st) color_id y (z + 1) x best_x_len
                    \<and> dict_get brick_sizes (2, best_x_len) \<noteq> None
                then 2 else 1);
             (brick_type, best_x_len, best_z_len) =
               (case dict_get brick_sizes (best_z_len, best_x_len) of
                  Some part \<Rightarrow> (part, best_x_len, best_z_len)
                | None \<Rightarrow> (default_brick, 1, 1));
             cells = concat (map (\<lambda>dz. map (\<lambda>dx. (y, z + dz, x + dx)) [0..<best_x_len])
                               [0..<best_z_len]);
             center_x = of_nat x + (of_nat best_x_len - 1) / 2;
             center_z = of_nat z + (of_nat best_z_len - 1) / 2;
             ldraw_x = (center_x - of_nat width / 2) * 20;
             ldraw_y = - int y * 24;
             ldraw_z = (center_z - of_nat len / 2) * 20
         in \<lparr>used = used st \<union> set cells,
             placements = placements st @
               [\<lparr>p_cells = cells, p_color = color_id, p_special = None,
                 p_lines = [ldraw_line color_id ldraw_x (of_int ldraw_y) ldraw_z
                              ''1 0 0 0 1 0 0 0 1'' brick_type]\<rparr>]\<rparr>))"

text \<open>The body of the merging loop.\<close>

definition merge_voxel :: "schematic_data \<Rightarrow> nat \<Rightarrow> cell \<Rightarrow> merge_state \<Rightarrow> merge_state" where
  "merge_voxel sd scale c st =
     (case c of (y, z, x) \<Rightarrow>
        if (y, z, x) \<in> used st \<or> color_grid sd y z x = - 1 \<or> special_blocks sd y z x then st
        else if scale = 2 then merge_scale2 sd scale c st
        else merge_scale1 sd c st)"

text \<open>The body of the last loop, over the special blocks.\<close>

definition special_voxel :: "schematic_data \<Rightarrow> nat \<Rightarrow> cell \<Rightarrow> merge_state \<Rightarrow> merge_state" where
  "special_voxel sd scale c st =
     (case c of (y, z, x) \<Rightarrow>
        if (y, z, x) \<in> used st then st
        else if \<not> special_blocks sd y z x then st
        else if color_grid sd y z x = - 1 then st
        else
          (let width = sd_width sd; len = sd_length sd;
               stud_size = 20 * scale; brick_height = 24 * scale;
               block_name =
                 (case sd_block_names sd of
                    Some block_names \<Rightarrow>
                      if data_index sd y z x < length block_names
                      then Some (block_names ! data_index sd y z x) else None
                  | None \<Rightarrow> None)
           in case block_name of
                None \<Rightarrow> st
              | Some name \<Rightarrow>
                  if name = [] then st
                  else (case get_special_part_info name of
                          None \<Rightarrow> st
                        | Some info \<Rightarrow>
                            (let color_id = color_grid sd y z x;
                                 ldraw_x = (of_nat x - of_nat width / 2) * of_nat stud_size;
                                 ldraw_y = - int y * int brick_height;
                                 ldraw_z = (of_nat z - of_nat len / 2) * of_nat stud_size;
                                 lines =
                                   (if scale = 2
                                    then emit_block_2x ldraw_x ldraw_y ldraw_z color_id (Some info)
                                    else [ldraw_line color_id ldraw_x
                                            (of_int (ldraw_y + si_y_offset info)) ldraw_z
                                            (si_rotation info) (si_part info)])
                             in \<lparr>used = insert (y, z, x) (used st),
                                 placements = placements st @
                                   [\<lparr>p_cells = [(y, z, x)], p_color = color_id,
                                     p_special = Some info, p_lines = lines\<rparr>]\<rparr>))))"

definition optimized_placements :: "schematic_data \<Rightarrow> nat \<Rightarrow> placement list" where
  "optimized_placements sd scale =
     (let cells = grid_cells (sd_height sd) (sd_length sd) (sd_width sd);
          merged = fold (merge_voxel sd scale) cells \<lparr>used = {}, placements = []\<rparr>
      in placements (fold (special_voxel sd scale) cells merged))"

definition convert_optimized :: "schematic_data \<Rightarrow> string list \<Rightarrow> nat \<Rightarrow> string list" where
  "convert_optimized sd ldraw_lines scale =
     ldraw_lines @ concat (map p_lines (optimized_placements sd scale))"

text \<open>\<^verbatim>\<open>convert_to_ldraw\<close>: the list of lines it builds, and their join with newlines.\<close>

definition header_lines :: "bool \<Rightarrow> nat \<Rightarrow> string list" where
  "header_lines optimize scale =
     [''0 Jonathan Rothberg'' @ [CHR 0x27] @ ''s MineCraft to LEGO converter'',
      ''0 Name: Converted from Minecraft'',
      ''0 Author: Jonathan Rothberg'']
     @ (if optimize then [''0 Optimized: Yes (merged bricks)''] else [])
     @ (if scale > 1
        then [''0 Scale: '' @ show_nat scale @ ''x (each MC block = '' @ show_nat scale @ '' studs)'']
        else [])
     @ [[]]"

definition ldraw_lines_of :: "schematic_data \<Rightarrow> bool \<Rightarrow> nat \<Rightarrow> string list" where
  "ldraw_lines_of sd optimize scale =
     (if optimize then convert_optimized sd (header_lines optimize scale) scale
      else convert_standard sd (header_lines optimize scale) scale)"

fun join_lines :: "string list \<Rightarrow> string" where
  "join_lines [] = []"
| "join_lines [l] = l"
| "join_lines (l # m # ls) = l @ [CHR 0x0A] @ join_lines (m # ls)"

definition convert_to_ldraw :: "schematic_data \<Rightarrow> bool \<Rightarrow> nat \<Rightarrow> string" where
  "convert_to_ldraw sd optimize scale = join_lines (ldraw_lines_of sd optimize scale)"

section \<open>Loading the new format\<close>

text \<open>
  The part of \<^verbatim>\<open>_load_schem_format\<close> that finds the palette and the block data. An NBT
  compound is the list of its entries in order (keys are distinct); \<^verbatim>\<open>hasattr(v, 'keys')\<close>
  holds of a compound only. \<^verbatim>\<open>key.lower()\<close> is taken on ASCII letters. The two
  \<^verbatim>\<open>raise KeyError\<close> statements are the two errors.
\<close>

datatype nbt =
    NBT_Int int
  | NBT_ByteArray "int list"
  | NBT_String string
  | NBT_Compound "(string \<times> nbt) list"

datatype load_error = Palette_Not_Found | BlockData_Not_Found

definition lower_char :: "char \<Rightarrow> char" where
  "lower_char c =
     (if (65 :: nat) \<le> of_char c \<and> of_char c \<le> (90 :: nat) then char_of (of_char c + (32 :: nat)) else c)"

definition str_lower :: "string \<Rightarrow> string" where
  "str_lower s = map lower_char s"

definition find_palette_and_data :: "(string \<times> nbt) list \<Rightarrow> load_error + (nbt \<times> nbt)" where
  "find_palette_and_data nbt_root =
     (let (palette, block_data) =
            (case dict_get nbt_root ''Blocks'' of
               Some (NBT_Compound blocks_compound) \<Rightarrow>
                 (dict_get blocks_compound ''Palette'', dict_get blocks_compound ''Data'')
             | _ \<Rightarrow> (None, None));
          palette = (if palette = None \<and> dict_get nbt_root ''Palette'' \<noteq> None
                     then dict_get nbt_root ''Palette'' else palette);
          block_data = (if block_data = None \<and> dict_get nbt_root ''BlockData'' \<noteq> None
                        then dict_get nbt_root ''BlockData'' else block_data);
          palette = (if palette = None
                     then map_option snd (find (\<lambda>(key, v). str_lower key = ''palette'') nbt_root)
                     else palette)
      in case palette of
           None \<Rightarrow> Inl Palette_Not_Found
         | Some p \<Rightarrow>
             (case block_data of
                None \<Rightarrow> Inl BlockData_Not_Found
              | Some d \<Rightarrow> Inr (p, d)))"

text \<open>
  The rule as the specification words it, to compare with: the entries of a \<open>Blocks\<close>
  compound are taken only when it holds both; otherwise the root-level entries, otherwise a
  root key that is \<open>palette\<close> up to case.
\<close>

definition spec_find_palette_and_data :: "(string \<times> nbt) list \<Rightarrow> load_error + (nbt \<times> nbt)" where
  "spec_find_palette_and_data nbt_root =
     (let from_blocks =
            (case dict_get nbt_root ''Blocks'' of
               Some (NBT_Compound blocks_compound) \<Rightarrow>
                 (case (dict_get blocks_compound ''Palette'', dict_get blocks_compound ''Data'') of
                    (Some p, Some d) \<Rightarrow> Some (p, d)
                  | _ \<Rightarrow> None)
             | _ \<Rightarrow> None)
      in case from_blocks of
           Some pd \<Rightarrow> Inr pd
         | None \<Rightarrow>
             (let palette =
                    (case dict_get nbt_root ''Palette'' of
                       Some p \<Rightarrow> Some p
                     | None \<Rightarrow> map_option snd (find (\<lambda>(key, v). str_lower key = ''palette'') nbt_root))
              in case palette of
                   None \<Rightarrow> Inl Palette_Not_Found
                 | Some p \<Rightarrow>
                     (case dict_get nbt_root ''BlockData'' of
                        None \<Rightarrow> Inl BlockData_Not_Found
                      | Some d \<Rightarrow> Inr (p, d))))"

text \<open>
  The dictionary that \<^verbatim>\<open>_load_schem_format\<close> returns once the block names of the cells are
  decoded: the numeric ids are computed from the names, and there is no data array.
\<close>

definition schem_data :: "nat \<Rightarrow> nat \<Rightarrow> nat \<Rightarrow> string list \<Rightarrow> schematic_data" where
  "schem_data width height len block_names =
     \<lparr>sd_width = width, sd_height = height, sd_length = len,
      sd_blocks = map block_name_to_id block_names, sd_data = None,
      sd_block_names = Some block_names\<rparr>"

section \<open>Reading rotations and placement lines\<close>

text \<open>
  The nine numbers of a rotation string, row by row, and what it means for them to be a
  rotation: the rows are orthonormal and the determinant is 1.
\<close>

definition rotation_matrix :: "string \<Rightarrow> int list" where
  "rotation_matrix s =
     (case sequence_option (map read_int (str_words s)) of Some vals \<Rightarrow> vals | None \<Rightarrow> [])"

definition mat_row :: "int list \<Rightarrow> nat \<Rightarrow> int list" where
  "mat_row m i = [m ! (3 * i), m ! (3 * i + 1), m ! (3 * i + 2)]"

definition dot :: "int list \<Rightarrow> int list \<Rightarrow> int" where
  "dot a b = sum_list (map (\<lambda>(p, q). p * q) (zip a b))"

definition det3 :: "int list \<Rightarrow> int" where
  "det3 m = m ! 0 * (m ! 4 * m ! 8 - m ! 5 * m ! 7)
          - m ! 1 * (m ! 3 * m ! 8 - m ! 5 * m ! 6)
          + m ! 2 * (m ! 3 * m ! 7 - m ! 4 * m ! 6)"

definition is_rotation :: "int list \<Rightarrow> bool" where
  "is_rotation m =
     (length m = 9
      \<and> list_all (\<lambda>i. list_all (\<lambda>j. dot (mat_row m i) (mat_row m j) = (if i = j then 1 else 0))
                        [0, 1, 2]) [0, 1, 2]
      \<and> det3 m = 1)"

definition negate_rows_2_3 :: "int list \<Rightarrow> int list" where
  "negate_rows_2_3 m = take 3 m @ map uminus (drop 3 m)"

text \<open>
  The fields of a placement line, split at single spaces: line type, colour, three
  coordinates, nine rotation numbers, part file.
\<close>

definition is_digits :: "string \<Rightarrow> bool" where
  "is_digits s = (s \<noteq> [] \<and> list_all (\<lambda>c. c \<in> set ''0123456789'') s)"

definition is_int_token :: "string \<Rightarrow> bool" where
  "is_int_token s = (is_digits s \<or> (s \<noteq> [] \<and> hd s = CHR ''-'' \<and> is_digits (tl s)))"

definition decimals :: "string \<Rightarrow> nat option" where
  "decimals s =
     (if CHR ''.'' \<in> set s \<and> is_int_token (takeWhile (\<lambda>c. c \<noteq> CHR ''.'') s)
         \<and> is_digits (tl (dropWhile (\<lambda>c. c \<noteq> CHR ''.'') s))
      then Some (length (tl (dropWhile (\<lambda>c. c \<noteq> CHR ''.'') s))) else None)"

definition endswith :: "string \<Rightarrow> string \<Rightarrow> bool" where
  "endswith suffix s = startswith (rev suffix) (rev s)"

definition line_fields :: "string \<Rightarrow> string list" where
  "line_fields l = str_split CHR '' '' l"

definition line_color :: "string \<Rightarrow> string" where
  "line_color l = line_fields l ! 1"

definition line_position :: "string \<Rightarrow> string list" where
  "line_position l = take 3 (drop 2 (line_fields l))"

definition line_rotation :: "string \<Rightarrow> string" where
  "line_rotation l = join_words (take 9 (drop 5 (line_fields l)))"

definition line_part :: "string \<Rightarrow> string" where
  "line_part l = line_fields l ! 14"

definition placement_line :: "nat \<Rightarrow> string \<Rightarrow> bool" where
  "placement_line n l =
     (length (line_fields l) = 15
      \<and> line_fields l ! 0 = ''1''
      \<and> is_int_token (line_color l)
      \<and> list_all (\<lambda>t. decimals t = Some n) (line_position l)
      \<and> list_all is_int_token (take 9 (drop 5 (line_fields l)))
      \<and> endswith ''.dat'' (line_part l))"

text \<open>The cells that are not passed over: those with a colour in \<open>color_grid\<close>.\<close>

definition non_skipped_cells :: "schematic_data \<Rightarrow> cell list" where
  "non_skipped_cells sd =
     filter (\<lambda>(y, z, x). color_grid sd y z x \<noteq> - 1)
       (grid_cells (sd_height sd) (sd_length sd) (sd_width sd))"

section \<open>Properties of the varint codec\<close>

lemma read_varint_group:
  "read_varint data i val shift =
     (group_value val shift (first_group (drop i data)), i + length (first_group (drop i data)))"
proof (induction data i val shift rule: read_varint.induct)
  case (1 data i val shift)
  show ?case
  proof (cases "i \<ge> length data")
    case True
    then show ?thesis by (subst read_varint.simps) simp
  next
    case inside: False
    then have d: "drop i data = data ! i # drop (i + 1) data"
      by (simp add: Cons_nth_drop_Suc)
    show ?thesis
    proof (cases "unsigned_byte (data ! i) AND 0x80 = 0")
      case True
      with inside show ?thesis
        by (subst read_varint.simps) (simp add: Let_def d is_last_byte_def)
    next
      case False
      with inside "1.IH" [OF _ refl refl] show ?thesis
        by (subst read_varint.simps) (simp add: Let_def d is_last_byte_def)
    qed
  qed
qed

lemma first_group_nonempty: "bs \<noteq> [] \<Longrightarrow> first_group bs \<noteq> []"
  by (cases bs) auto

lemma varint_groups_nonempty: "bs \<noteq> [] \<Longrightarrow> varint_groups bs \<noteq> []"
  by (cases bs) (auto split: list.splits)

lemma varint_groups_unfold:
  "bs \<noteq> [] \<Longrightarrow>
   varint_groups bs = first_group bs # varint_groups (drop (length (first_group bs)) bs)"
proof (induction bs)
  case Nil
  then show ?case by simp
next
  case (Cons b bs)
  show ?case
  proof (cases "is_last_byte b")
    case True
    then show ?thesis by simp
  next
    case False
    show ?thesis
    proof (cases "bs = []")
      case True
      with False show ?thesis by simp
    next
      case ne: False
      with Cons.IH False show ?thesis by simp
    qed
  qed
qed

lemma decode_loop_groups:
  "i \<le> length data \<Longrightarrow> decode_loop data n i result =
     result @ take (nat n - length result) (map (group_value 0 0) (varint_groups (drop i data)))"
proof (induction data n i result rule: decode_loop.induct)
  case (1 data n i result)
  show ?case
  proof (cases "i < length data \<and> int (length result) < n")
    case False
    then show ?thesis 
      using "1.prems" by (subst decode_loop.simps) auto
  next
    case True
    let ?g = "first_group (drop i data)"
    have rv: "read_varint data i 0 0 = (group_value 0 0 ?g, i + length ?g)"
      by (rule read_varint_group)
    from True have ne: "drop i data \<noteq> []" by simp
    have le: "i + length ?g \<le> length data"
      using read_varint_bounded [of i data 0 0] "1.prems" rv by simp
    have step: "decode_loop data n i result = decode_loop data n (i + length ?g) (result @ [group_value 0 0 ?g])"
      using True by (subst decode_loop.simps) (simp add: rv)
    have ih: "decode_loop data n (i + length ?g) (result @ [group_value 0 0 ?g]) =
        (result @ [group_value 0 0 ?g]) @ take (nat n - length (result @ [group_value 0 0 ?g]))
          (map (group_value 0 0) (varint_groups (drop (i + length ?g) data)))"
      using "1.IH" [OF True rv [symmetric] le] .
    have "nat n - length result = Suc (nat n - length (result @ [group_value 0 0 ?g]))"
      using True by auto
    then show ?thesis
      unfolding step ih varint_groups_unfold [OF ne]
      by (simp add: add.commute)
  qed
qed

lemma varint_groups_length: "length (varint_groups bs) \<le> length bs"
  by (induction bs) (auto split: list.splits)

lemma varint_groups_partial:
  "tail \<noteq> [] \<Longrightarrow> list_all (\<lambda>b. \<not> is_last_byte b) tail \<Longrightarrow> varint_groups tail = [tail]"
proof (induction tail)
  case Nil
  then show ?case by simp
next
  case (Cons b bs)
  then show ?case by (cases "bs = []") auto
qed

lemma varint_groups_append:
  "complete_stream pre \<Longrightarrow> varint_groups (pre @ rest) = varint_groups pre @ varint_groups rest"
proof (induction pre)
  case Nil
  then show ?case by simp
next
  case (Cons b bs)
  show ?case
  proof (cases "bs = []")
    case True
    with Cons.prems show ?thesis by (simp add: complete_stream_def)
  next
    case False
    with Cons.prems have "complete_stream bs" by (simp add: complete_stream_def)
    with Cons.IH have ih: "varint_groups (bs @ rest) = varint_groups bs @ varint_groups rest" .
    from False obtain g gs where "varint_groups bs = g # gs"
      using varint_groups_nonempty [of bs] by (cases "varint_groups bs") auto
    with ih show ?thesis by simp
  qed
qed

lemma decode_varint_array_groups:
  "decode_varint_array data n = take (nat n) (map (group_value 0 0) (varint_groups data))"
  by (simp add: decode_varint_array_def decode_loop_groups)

text \<open>
  Claim C3, as amended. For every byte stream and expected count the decoder returns (it is
  a total function: it never raises) at most \<open>expected_length\<close> values. When the stream is
  a complete encoding \<open>pre\<close> followed by a non-empty tail of bytes that all carry the
  continuation bit (a value cut off before its last byte), the tail is not dropped: the
  result is the values of \<open>pre\<close> followed by one more value, assembled from the low seven
  bits of the bytes of the tail, cut to the expected count.
\<close>

theorem varint_decode_keeps_partial_value:
  "length (decode_varint_array data n) \<le> nat n \<and>
   (complete_stream pre \<and> tail \<noteq> [] \<and> list_all (\<lambda>b. \<not> is_last_byte b) tail \<longrightarrow>
      decode_varint_array (pre @ tail) n =
        take (nat n) (decode_varint_array pre (int (length pre)) @ [group_value 0 0 tail]))"
proof (intro conjI impI)
  show "length (decode_varint_array data n) \<le> nat n"
    by (simp add: decode_varint_array_groups)
next
  assume a: "complete_stream pre \<and> tail \<noteq> [] \<and> list_all (\<lambda>b. \<not> is_last_byte b) tail"
  have "decode_varint_array pre (int (length pre)) = map (group_value 0 0) (varint_groups pre)"
    using varint_groups_length [of pre] by (simp add: decode_varint_array_groups)
  moreover have "varint_groups (pre @ tail) = varint_groups pre @ [tail]"
    using a by (simp add: varint_groups_append varint_groups_partial)
  ultimately show "decode_varint_array (pre @ tail) n =
        take (nat n) (decode_varint_array pre (int (length pre)) @ [group_value 0 0 tail])"
    by (simp add: decode_varint_array_groups)
qed

theorem varint_decode_keeps_partial_value_witness:
  "complete_stream [5] \<and> [129] \<noteq> ([] :: int list) \<and> list_all (\<lambda>b. \<not> is_last_byte b) [129]
   \<and> length (decode_varint_array [5, 129] 2) \<le> nat 2
   \<and> decode_varint_array ([5] @ [129]) 2 =
        take (nat 2) (decode_varint_array [5] (int (length [5 :: int])) @ [group_value 0 0 [129]])"
proof -
  have h: "complete_stream [5] \<and> [129] \<noteq> ([] :: int list)
      \<and> list_all (\<lambda>b. \<not> is_last_byte b) [129]"
    by (simp add: complete_stream_def is_last_byte_def unsigned_byte_def)
  from varint_decode_keeps_partial_value [of "[5, 129]" 2 "[5]" "[129]"] h show ?thesis
    by blast
qed

text \<open>
  Claim C3 as stated fails: the stream \<open>[0x05, 0x81]\<close> holds the complete value 5 and then
  a byte with the continuation bit set and nothing after it. The claim has the result hold
  the fully-formed value only, \<open>[5]\<close>; the decoder returns \<open>[5, 1]\<close>.
\<close>

theorem varint_partial_value_not_dropped:
  "complete_stream [5] \<and> \<not> is_last_byte 129
   \<and> decode_varint_array [5] 2 = [5]
   \<and> decode_varint_array ([5] @ [129]) 2 = [5, 1]
   \<and> decode_varint_array ([5] @ [129]) 2 \<noteq> decode_varint_array [5] 2"
  by (simp add: decode_varint_array_groups complete_stream_def is_last_byte_def unsigned_byte_def)

section \<open>Properties of the colour tables and rotations\<close>

text \<open>
  Claim C9. For every block id in the set of ids whose colour comes from the data value
  (35, 95, 159, 160, 171, 251, 252) and every data value that the dye table has an entry
  for, \<open>get_brick_info\<close> returns the dye table's colour in place of the colour of the id.
  The witness is the wool block, id 35, with data value 4: its colour is 14 (yellow), where
  the table of ids alone gives 15.
\<close>

theorem dye_table_overrides_id_color:
  "block_id \<in> set color_data_blocks \<Longrightarrow> dict_get wool_color_mappings data_value = Some c \<Longrightarrow>
   get_brick_info block_id data_value = (default_brick, c)"
  by (simp add: get_brick_info_def Let_def)

theorem dye_table_overrides_id_color_witness:
  "(35 :: int) \<in> set color_data_blocks \<and> dict_get wool_color_mappings 4 = Some 14
   \<and> get_brick_info 35 4 = (''3005'', 14) \<and> dict_get_default block_colors 35 7 = 15"
proof -
  have a: "(35 :: int) \<in> set color_data_blocks"
    by (simp add: color_data_blocks_def)
  have b: "dict_get wool_color_mappings 4 = Some 14"
    by (simp add: wool_color_mappings_def dict_get_def)
  have c: "dict_get_default block_colors 35 7 = 15"
    by code_simp
  from dye_table_overrides_id_color [OF a b] a b c show ?thesis
    by (simp add: default_brick_def)
qed

text \<open>
  Claim C7. The four facings map to the four rotation strings of the table; their matrices
  are pairwise distinct, each is a rotation (orthonormal rows, determinant 1), north is the
  identity, and \<open>flip_rotation_y\<close>, which negates the second and third rows, gives the
  original string back when applied twice.
\<close>

theorem facing_rotations:
  "dict_get rotations ''north'' = Some ''1 0 0 0 1 0 0 0 1''
   \<and> dict_get rotations ''east'' = Some ''0 0 -1 0 1 0 1 0 0''
   \<and> dict_get rotations ''south'' = Some ''-1 0 0 0 1 0 0 0 -1''
   \<and> dict_get rotations ''west'' = Some ''0 0 1 0 1 0 -1 0 0''
   \<and> map fst rotations = [''north'', ''east'', ''south'', ''west'']
   \<and> distinct (map (rotation_matrix \<circ> snd) rotations)
   \<and> list_all (is_rotation \<circ> rotation_matrix \<circ> snd) rotations
   \<and> rotation_matrix ''1 0 0 0 1 0 0 0 1'' = [1, 0, 0, 0, 1, 0, 0, 0, 1]
   \<and> list_all (\<lambda>(facing, r). Option.bind (flip_rotation_y r) flip_rotation_y = Some r) rotations
   \<and> list_all (\<lambda>(facing, r). map_option rotation_matrix (flip_rotation_y r)
                                = Some (negate_rows_2_3 (rotation_matrix r))) rotations"
  by code_simp

end
